theory Spec2Isabelle
  imports Complex_Main
begin

section \<open>The import dashboard: data model\<close>

text \<open>
  A shallow embedding of the two React components of the repository,
  \<^verbatim>\<open>ImportHistoryTable\<close> and \<^verbatim>\<open>Dashboard\<close>. Component state (the \<^verbatim>\<open>useState\<close> cells)
  is a record; an event handler is a function from the state before the event to the
  state after it, together with the toasts it shows. JavaScript numbers that hold
  counts, page numbers and milliseconds are integers; strings are \<open>string\<close>.
\<close>

subsection \<open>Numbers to strings\<close>

text \<open>
  \<^verbatim>\<open>Number.prototype.toString\<close> and template-literal interpolation of an integer: the
  decimal digits, most significant first, with a leading minus sign below zero.
\<close>

definition digit_char :: "nat \<Rightarrow> char" where
  "digit_char n = ''0123456789'' ! (n mod 10)"

fun string_of_nat :: "nat \<Rightarrow> string" where
  "string_of_nat n =
     (if n < 10 then [digit_char n] else string_of_nat (n div 10) @ [digit_char (n mod 10)])"

definition toString :: "int \<Rightarrow> string" where
  "toString i = (if i < 0 then ''-'' @ string_of_nat (nat (- i)) else string_of_nat (nat i))"

text \<open>
  The remainder operator \<^verbatim>\<open>%\<close> of JavaScript truncates towards zero: the result has the
  sign of the dividend. (A zero divisor gives \<^verbatim>\<open>NaN\<close> there; the components only divide by
  the constant 60.)
\<close>

definition js_rem :: "int \<Rightarrow> int \<Rightarrow> int" where
  "js_rem a b = sgn a * (\<bar>a\<bar> mod \<bar>b\<bar>)"

subsection \<open>Interfaces of ImportHistoryTable.tsx\<close>

text \<open>
  \<^verbatim>\<open>interface ImportLogEntry\<close>. The fields \<^verbatim>\<open>id\<close>, \<^verbatim>\<open>source\<close> and \<^verbatim>\<open>status\<close> carry the
  prefix \<open>entry_\<close> (\<open>id\<close> is a constant of HOL, the other two are also fields of
  \<^verbatim>\<open>Filters\<close>). An element of \<^verbatim>\<open>errors\<close> or \<^verbatim>\<open>warnings\<close> is read as a timestamp and a
  message; \<^verbatim>\<open>metadata: any\<close> is never read by the component and is left out.
\<close>

record LogMessage =
  msg_timestamp :: string
  msg_message :: string

record ImportLogEntry =
  entry_id :: string
  importId :: string
  entry_source :: string
  sourceUrl :: string
  entry_status :: string
  timestamp :: string
  duration :: "int option"
  totalFetched :: int
  totalImported :: int
  newJobs :: int
  updatedJobs :: int
  failedJobs :: int
  successRate :: int
  errorCount :: int
  warningCount :: int
  triggerType :: string
  triggeredBy :: string
  startTime :: string
  endTime :: "string option"
  errors :: "LogMessage list"
  warnings :: "LogMessage list"

text \<open>
  \<^verbatim>\<open>interface Filters\<close>. The type of \<^verbatim>\<open>sortOrder\<close> is \<^verbatim>\<open>"asc" | "desc"\<close> in the source;
  it is a string here, as it is at run time, so that staying inside the two values is a
  property to prove and not a property of the model.
\<close>

record Filters =
  source :: string
  status :: string
  startDate :: string
  endDate :: string
  sortBy :: string
  sortOrder :: string

record Pagination =
  currentPage :: int
  totalPages :: int
  totalCount :: int
  hasNextPage :: bool
  hasPrevPage :: bool
  limit :: int

text \<open>The state cells of the component \<^verbatim>\<open>ImportHistoryTable\<close>.\<close>

record table_state =
  logs :: "ImportLogEntry list"
  loading :: bool
  pagination :: Pagination
  filters :: Filters
  showFilters :: bool
  selectedLog :: "ImportLogEntry option"
  showDetails :: bool

definition initial_pagination :: Pagination where
  "initial_pagination =
     \<lparr>currentPage = 1, totalPages = 1, totalCount = 0,
      hasNextPage = False, hasPrevPage = False, limit = 10\<rparr>"

definition initial_filters :: Filters where
  "initial_filters =
     \<lparr>source = '''', status = '''', startDate = '''', endDate = '''',
      sortBy = ''startTime'', sortOrder = ''desc''\<rparr>"

definition initial_table_state :: table_state where
  "initial_table_state =
     \<lparr>logs = [], loading = True, pagination = initial_pagination,
      filters = initial_filters, showFilters = False, selectedLog = None,
      showDetails = False\<rparr>"

subsection \<open>HTTP exchanges\<close>

text \<open>
  What \<^verbatim>\<open>await fetch(...)\<close> followed by \<^verbatim>\<open>await response.json()\<close> can give. The promise
  of \<^verbatim>\<open>fetch\<close> rejects (\<open>NetworkError\<close>) or resolves to a response with a status code;
  \<^verbatim>\<open>response.ok\<close> is true exactly for the codes 200 to 299. The body is \<open>None\<close> when
  \<^verbatim>\<open>response.json()\<close> rejects. A parsed body has the envelope of the API:
  \<^verbatim>\<open>success\<close> (absent reads as false), \<^verbatim>\<open>message\<close> and \<^verbatim>\<open>data\<close> (\<open>None\<close> when absent, so
  that reading a property of it throws a \<^verbatim>\<open>TypeError\<close>).
\<close>

record 'd api_body =
  success :: bool
  message :: "string option"
  data :: "'d option"

datatype 'd fetch_result =
  NetworkError
  | HttpResponse nat "'d api_body option"

definition response_ok :: "nat \<Rightarrow> bool" where
  "response_ok code = (200 \<le> code \<and> code \<le> 299)"

text \<open>The toasts of \<^verbatim>\<open>react-hot-toast\<close>: what the user sees of an outcome.\<close>

datatype toast = ToastError string | ToastSuccess string

text \<open>The payload of \<^verbatim>\<open>GET /api/import/logs\<close>: \<^verbatim>\<open>data.data.logs\<close> and \<^verbatim>\<open>data.data.pagination\<close>.\<close>

record logs_data =
  data_logs :: "ImportLogEntry list"
  data_pagination :: Pagination

section \<open>ImportHistoryTable: handlers\<close>

subsection \<open>The log query\<close>

text \<open>
  The entries of \<^verbatim>\<open>new URLSearchParams({...})\<close> in \<^verbatim>\<open>fetchLogs\<close>, in insertion order.
  A spread \<^verbatim>\<open>...(filters.source && { source: filters.source })\<close> adds its key exactly
  when the string is truthy, that is, not empty. The query string of the request is
  these entries, percent-encoded and joined by \<^verbatim>\<open>&\<close>.
\<close>

definition queryParams :: "Filters \<Rightarrow> Pagination \<Rightarrow> int \<Rightarrow> (string \<times> string) list" where
  "queryParams f p page =
     [(''page'', toString page),
      (''limit'', toString (limit p)),
      (''sortBy'', sortBy f),
      (''sortOrder'', sortOrder f)]
     @ (if source f \<noteq> [] then [(''source'', source f)] else [])
     @ (if status f \<noteq> [] then [(''status'', status f)] else [])
     @ (if startDate f \<noteq> [] then [(''startDate'', startDate f)] else [])
     @ (if endDate f \<noteq> [] then [(''endDate'', endDate f)] else [])"

text \<open>The query a call \<^verbatim>\<open>fetchLogs(page)\<close> sends from a state of the component.\<close>

definition fetchLogs_query :: "table_state \<Rightarrow> int \<Rightarrow> (string \<times> string) list" where
  "fetchLogs_query st page = queryParams (filters st) (pagination st) page"

subsection \<open>fetchLogs\<close>

text \<open>
  What a \<^verbatim>\<open>try\<close> block can throw: the rejection of \<^verbatim>\<open>fetch\<close>, the rejection of
  \<^verbatim>\<open>response.json()\<close>, a \<^verbatim>\<open>TypeError\<close> from reading a property of \<^verbatim>\<open>undefined\<close>, and
  \<^verbatim>\<open>new Error(message)\<close>.
\<close>

datatype thrown = FetchRejected | JsonRejected | TypeError | Error string

text \<open>
  The body of the \<^verbatim>\<open>try\<close> block of \<^verbatim>\<open>fetchLogs\<close>, from the awaited response on:
  \<open>Inl x\<close> is \<open>x\<close> thrown before any state was set, \<open>Inr st\<close> the state after
  \<^verbatim>\<open>setLogs\<close> and \<^verbatim>\<open>setPagination\<close>. \<^verbatim>\<open>data.message || "..."\<close> takes the default for an
  absent or empty message.
\<close>

definition fetchLogs_try :: "table_state \<Rightarrow> logs_data fetch_result \<Rightarrow> thrown + table_state" where
  "fetchLogs_try st r =
     (case r of
        NetworkError \<Rightarrow> Inl FetchRejected
      | HttpResponse code parsed \<Rightarrow>
          if \<not> response_ok code then Inl (Error ''Failed to fetch import logs'')
          else (case parsed of
                  None \<Rightarrow> Inl JsonRejected
                | Some b \<Rightarrow>
                    if success b then
                      (case data b of
                         None \<Rightarrow> Inl TypeError
                       | Some d \<Rightarrow> Inr (st\<lparr>logs := data_logs d, pagination := data_pagination d\<rparr>))
                    else Inl (Error (case message b of
                                       None \<Rightarrow> ''Failed to fetch import logs''
                                     | Some m \<Rightarrow> if m = [] then ''Failed to fetch import logs'' else m))))"

text \<open>
  \<^verbatim>\<open>fetchLogs\<close>: \<^verbatim>\<open>setLoading(true)\<close>, the \<^verbatim>\<open>try\<close> block, the \<^verbatim>\<open>catch\<close> block (a fixed
  error toast, whatever was thrown) and \<^verbatim>\<open>finally\<close> \<^verbatim>\<open>setLoading(false)\<close>.
\<close>

definition fetchLogs :: "table_state \<Rightarrow> logs_data fetch_result \<Rightarrow> table_state \<times> toast list" where
  "fetchLogs st r =
     (let st1 = st\<lparr>loading := True\<rparr> in
      case fetchLogs_try st1 r of
        Inl x \<Rightarrow> (st1\<lparr>loading := False\<rparr>, [ToastError ''Failed to fetch import logs''])
      | Inr st2 \<Rightarrow> (st2\<lparr>loading := False\<rparr>, []))"

subsection \<open>Filters and sorting\<close>

text \<open>\<^verbatim>\<open>keyof Filters\<close>, the first argument of \<^verbatim>\<open>handleFilterChange\<close>.\<close>

datatype filter_key = KSource | KStatus | KStartDate | KEndDate | KSortBy | KSortOrder

fun handleFilterChange :: "Filters \<Rightarrow> filter_key \<Rightarrow> string \<Rightarrow> Filters" where
  "handleFilterChange prev KSource v = prev\<lparr>source := v\<rparr>"
| "handleFilterChange prev KStatus v = prev\<lparr>status := v\<rparr>"
| "handleFilterChange prev KStartDate v = prev\<lparr>startDate := v\<rparr>"
| "handleFilterChange prev KEndDate v = prev\<lparr>endDate := v\<rparr>"
| "handleFilterChange prev KSortBy v = prev\<lparr>sortBy := v\<rparr>"
| "handleFilterChange prev KSortOrder v = prev\<lparr>sortOrder := v\<rparr>"

text \<open>
  \<^verbatim>\<open>handleSort\<close>, on the filters of the render in which the click happens (the closure's
  \<^verbatim>\<open>filters\<close> and the updater's \<^verbatim>\<open>prev\<close> are then the same object).
\<close>

definition handleSort :: "Filters \<Rightarrow> string \<Rightarrow> Filters" where
  "handleSort f column =
     (let newOrder = (if sortBy f = column \<and> sortOrder f = ''desc'' then ''asc'' else ''desc'')
      in f\<lparr>sortBy := column, sortOrder := newOrder\<rparr>)"

definition clearFilters :: Filters where
  "clearFilters =
     \<lparr>source = [], status = [], startDate = [], endDate = [],
      sortBy = ''startTime'', sortOrder = ''desc''\<rparr>"

text \<open>
  The filter states the rendered table can reach. The four filter inputs call
  \<^verbatim>\<open>handleFilterChange\<close> with the keys \<^verbatim>\<open>source\<close>, \<^verbatim>\<open>status\<close>, \<^verbatim>\<open>startDate\<close> and
  \<^verbatim>\<open>endDate\<close>; the column headers call \<^verbatim>\<open>handleSort\<close>; the button calls \<^verbatim>\<open>clearFilters\<close>.
\<close>

inductive reachable_filters :: "Filters \<Rightarrow> bool" where
  initial: "reachable_filters initial_filters"
| change: "reachable_filters f \<Longrightarrow> k \<in> {KSource, KStatus, KStartDate, KEndDate}
           \<Longrightarrow> reachable_filters (handleFilterChange f k v)"
| sort: "reachable_filters f \<Longrightarrow> reachable_filters (handleSort f column)"
| clear: "reachable_filters clearFilters"

subsection \<open>formatDuration\<close>

text \<open>
  \<^verbatim>\<open>formatDuration(duration: number | null)\<close>, for a whole number of milliseconds.
  \<^verbatim>\<open>!duration\<close> holds for \<^verbatim>\<open>null\<close> and for 0; \<^verbatim>\<open>Math.floor\<close> of a quotient of integers
  is the integer division of HOL, which rounds down.
\<close>

definition formatDuration :: "int option \<Rightarrow> string" where
  "formatDuration dur =
     (case dur of
        None \<Rightarrow> ''N/A''
      | Some d \<Rightarrow>
          if d = 0 then ''N/A''
          else
            (let seconds = d div 1000;
                 minutes = seconds div 60;
                 hours = minutes div 60
             in if hours > 0 then toString hours @ ''h '' @ toString (js_rem minutes 60) @ ''m''
                else if minutes > 0 then toString minutes @ ''m '' @ toString (js_rem seconds 60) @ ''s''
                else toString seconds @ ''s''))"

subsection \<open>getStatusBadge\<close>

datatype icon = ClockIcon | ArrowUpIcon | CheckCircleIcon | XCircleIcon

text \<open>
  An entry of the object literal \<^verbatim>\<open>statusConfig\<close>: its properties \<^verbatim>\<open>bg\<close>, \<^verbatim>\<open>text\<close> and
  \<^verbatim>\<open>icon\<close> (prefixed here, \<open>text\<close> being a keyword of Isabelle).
\<close>

record status_config =
  cfg_bg :: string
  cfg_text :: string
  cfg_icon :: icon

definition pending_config :: status_config where
  "pending_config = \<lparr>cfg_bg = ''bg-yellow-100'', cfg_text = ''text-yellow-800'', cfg_icon = ClockIcon\<rparr>"

text \<open>The own properties of \<^verbatim>\<open>statusConfig\<close>, in the order of the literal.\<close>

definition statusConfig :: "(string \<times> status_config) list" where
  "statusConfig =
     [(''pending'', pending_config),
      (''in-progress'',
         \<lparr>cfg_bg = ''bg-blue-100'', cfg_text = ''text-blue-800'', cfg_icon = ArrowUpIcon\<rparr>),
      (''completed'',
         \<lparr>cfg_bg = ''bg-green-100'', cfg_text = ''text-green-800'', cfg_icon = CheckCircleIcon\<rparr>),
      (''failed'',
         \<lparr>cfg_bg = ''bg-red-100'', cfg_text = ''text-red-800'', cfg_icon = XCircleIcon\<rparr>),
      (''cancelled'',
         \<lparr>cfg_bg = ''bg-gray-100'', cfg_text = ''text-gray-800'', cfg_icon = XCircleIcon\<rparr>)]"

text \<open>
  \<^verbatim>\<open>statusConfig\<close> is an ordinary object, so a property read \<^verbatim>\<open>statusConfig[key]\<close> that
  finds no own property goes on to \<^verbatim>\<open>Object.prototype\<close>. These are the property names
  of \<^verbatim>\<open>Object.prototype\<close> in ECMAScript (with Annex B); each holds a function or, for
  \<^verbatim>\<open>__proto__\<close>, the prototype object itself: a truthy value that has no property
  \<^verbatim>\<open>bg\<close>, \<^verbatim>\<open>text\<close> or \<^verbatim>\<open>icon\<close>.
\<close>

definition object_prototype_members :: "string list" where
  "object_prototype_members =
     [''constructor'', ''__proto__'', ''hasOwnProperty'', ''isPrototypeOf'',
      ''propertyIsEnumerable'', ''toLocaleString'', ''toString'', ''valueOf'',
      ''__defineGetter__'', ''__defineSetter__'', ''__lookupGetter__'', ''__lookupSetter__'']"

datatype property_read = OwnEntry status_config | InheritedMember | Undefined

definition statusConfig_get :: "string \<Rightarrow> property_read" where
  "statusConfig_get key =
     (case map_of statusConfig key of
        Some c \<Rightarrow> OwnEntry c
      | None \<Rightarrow> if key \<in> set object_prototype_members then InheritedMember else Undefined)"

text \<open>
  The element \<^verbatim>\<open>getStatusBadge\<close> returns: the class name of the \<^verbatim>\<open>span\<close>, the component
  rendered as icon (\<open>None\<close> when \<^verbatim>\<open>config.icon\<close> is \<^verbatim>\<open>undefined\<close>: React then throws
  "Element type is invalid" while rendering the row) and the text. A template literal
  prints \<^verbatim>\<open>undefined\<close> as the word.
\<close>

record badge =
  className :: string
  badge_icon :: "icon option"
  badge_label :: string

definition interpolate :: "string option \<Rightarrow> string" where
  "interpolate v = (case v of None \<Rightarrow> ''undefined'' | Some s \<Rightarrow> s)"

definition getStatusBadge :: "string \<Rightarrow> badge" where
  "getStatusBadge st =
     (let config = (case statusConfig_get st of
                      Undefined \<Rightarrow> OwnEntry pending_config
                    | found \<Rightarrow> found);
          config_bg = (case config of OwnEntry c \<Rightarrow> Some (cfg_bg c) | _ \<Rightarrow> None);
          config_text = (case config of OwnEntry c \<Rightarrow> Some (cfg_text c) | _ \<Rightarrow> None);
          Icon = (case config of OwnEntry c \<Rightarrow> Some (cfg_icon c) | _ \<Rightarrow> None)
      in \<lparr>className =
            ''inline-flex items-center px-2.5 py-0.5 rounded-full text-xs font-medium ''
            @ interpolate config_bg @ '' '' @ interpolate config_text,
          badge_icon = Icon,
          badge_label = st\<rparr>)"

text \<open>The badge in the style of \<^verbatim>\<open>statusConfig.pending\<close>, for a given text.\<close>

definition pending_badge :: "string \<Rightarrow> badge" where
  "pending_badge st =
     \<lparr>className =
        ''inline-flex items-center px-2.5 py-0.5 rounded-full text-xs font-medium bg-yellow-100 text-yellow-800'',
      badge_icon = Some ClockIcon,
      badge_label = st\<rparr>"

subsection \<open>The success-rate cell and the pagination controls\<close>

text \<open>
  The bar of the success-rate cell: its colour class and its inline style
  \<^verbatim>\<open>width: `${log.successRate}%`\<close>. The value of the entry is printed as it came.
\<close>

definition successRateBarClass :: "ImportLogEntry \<Rightarrow> string" where
  "successRateBarClass e =
     (if successRate e \<ge> 90 then ''bg-green-500''
      else if successRate e \<ge> 70 then ''bg-yellow-500''
      else ''bg-red-500'')"


text \<open>
  The block under \<^verbatim>\<open>{pagination.totalPages > 1 && (...)}\<close>: the previous and the next
  button, each with its \<^verbatim>\<open>disabled\<close> attribute and the page its click asks for.
  With \<^verbatim>\<open>totalPages\<close> at most 1 the block is not rendered.
\<close>

record page_button =
  disabled :: bool
  target_page :: int

definition paginationControls :: "Pagination \<Rightarrow> (page_button \<times> page_button) option" where
  "paginationControls p =
     (if totalPages p > 1 then
        Some (\<lparr>disabled = \<not> hasPrevPage p, target_page = currentPage p - 1\<rparr>,
              \<lparr>disabled = \<not> hasNextPage p, target_page = currentPage p + 1\<rparr>)
      else None)"

text \<open>A button is enabled when it is on the page and not disabled.\<close>

definition prevPageEnabled :: "Pagination \<Rightarrow> bool" where
  "prevPageEnabled p =
     (case paginationControls p of None \<Rightarrow> False | Some (prev, nxt) \<Rightarrow> \<not> disabled prev)"

definition nextPageEnabled :: "Pagination \<Rightarrow> bool" where
  "nextPageEnabled p =
     (case paginationControls p of None \<Rightarrow> False | Some (prev, nxt) \<Rightarrow> \<not> disabled nxt)"

section \<open>Dashboard: handlers\<close>

datatype tab = Overview | History

text \<open>
  The state cells of \<^verbatim>\<open>Dashboard\<close>. The handlers store the payloads of the stats and the
  status endpoint without reading them, so their types are parameters. The cell
  \<^verbatim>\<open>loading\<close> is \<open>pageLoading\<close> here (the table has a cell of the same name).
\<close>

record ('stats, 'status) dashboard_state =
  importStats :: "'stats option"
  importStatus :: "'status option"
  pageLoading :: bool
  triggering :: bool
  activeTab :: tab

definition initial_dashboard_state :: "('stats, 'status) dashboard_state" where
  "initial_dashboard_state =
     \<lparr>importStats = None, importStatus = None, pageLoading = True,
      triggering = False, activeTab = Overview\<rparr>"

text \<open>
  The \<^verbatim>\<open>try\<close> block of \<^verbatim>\<open>fetchData\<close>. \<^verbatim>\<open>Promise.all\<close> rejects when either \<^verbatim>\<open>fetch\<close>
  rejects. \<open>Inl st\<close> is an exception thrown in state \<open>st\<close> (a setter that ran before the
  throw keeps its effect), \<open>Inr st\<close> the state at the end of the block. A response that
  is not \<^verbatim>\<open>ok\<close> is skipped; \<^verbatim>\<open>success\<close> is not read.
\<close>

definition fetchData_try ::
  "('stats, 'status) dashboard_state \<Rightarrow> 'stats fetch_result \<Rightarrow> 'status fetch_result
   \<Rightarrow> ('stats, 'status) dashboard_state + ('stats, 'status) dashboard_state" where
  "fetchData_try st statsResponse statusResponse =
     (case (statsResponse, statusResponse) of
        (HttpResponse code1 body1, HttpResponse code2 body2) \<Rightarrow>
          (case (if response_ok code1 then
                   (case body1 of
                      None \<Rightarrow> Inl st
                    | Some statsData \<Rightarrow> Inr (st\<lparr>importStats := data statsData\<rparr>))
                 else Inr st) of
             Inl st0 \<Rightarrow> Inl st0
           | Inr st1 \<Rightarrow>
               if response_ok code2 then
                 (case body2 of
                    None \<Rightarrow> Inl st1
                  | Some statusData \<Rightarrow> Inr (st1\<lparr>importStatus := data statusData\<rparr>))
               else Inr st1)
      | _ \<Rightarrow> Inl st)"

definition fetchData ::
  "('stats, 'status) dashboard_state \<Rightarrow> 'stats fetch_result \<Rightarrow> 'status fetch_result
   \<Rightarrow> ('stats, 'status) dashboard_state \<times> toast list" where
  "fetchData st statsResponse statusResponse =
     (case fetchData_try st statsResponse statusResponse of
        Inl st1 \<Rightarrow> (st1\<lparr>pageLoading := False\<rparr>, [ToastError ''Failed to fetch dashboard data''])
      | Inr st1 \<Rightarrow> (st1\<lparr>pageLoading := False\<rparr>, []))"

subsection \<open>triggerImport\<close>

datatype json = JNumber int | JString string | JObject "(string \<times> json) list"

text \<open>
  The request of \<^verbatim>\<open>triggerImport\<close>. The body is the object given to \<^verbatim>\<open>JSON.stringify\<close>,
  as a value and not as its text.
\<close>

record http_request =
  http_method :: string
  url :: string
  headers :: "(string \<times> string) list"
  body :: "json option"

definition triggerImport_request :: http_request where
  "triggerImport_request =
     \<lparr>http_method = ''POST'',
      url = ''/api/import/trigger'',
      headers = [(''Content-Type'', ''application/json'')],
      body = Some (JObject [(''priority'', JNumber 10),
                            (''concurrency'', JNumber 5),
                            (''batchSize'', JNumber 100)])\<rparr>"

text \<open>The payload of the trigger endpoint: \<^verbatim>\<open>data.data.jobId\<close>, as the template prints it.\<close>

record trigger_data =
  jobId :: string

text \<open>
  \<^verbatim>\<open>triggerImport\<close> from the awaited response on. The third component says whether
  \<^verbatim>\<open>setTimeout(fetchData, 1000)\<close> was called.
\<close>

definition triggerImport ::
  "('stats, 'status) dashboard_state \<Rightarrow> trigger_data fetch_result
   \<Rightarrow> ('stats, 'status) dashboard_state \<times> toast list \<times> bool" where
  "triggerImport st r =
     (let st1 = st\<lparr>triggering := True\<rparr>;
          failure = (st1\<lparr>triggering := False\<rparr>, [ToastError ''Failed to trigger import job''], False)
      in case r of
           NetworkError \<Rightarrow> failure
         | HttpResponse code parsed \<Rightarrow>
             if response_ok code then
               (case parsed of
                  None \<Rightarrow> failure
                | Some b \<Rightarrow>
                    (case data b of
                       None \<Rightarrow> failure
                     | Some d \<Rightarrow>
                         (st1\<lparr>triggering := False\<rparr>,
                          [ToastSuccess (''Import job triggered successfully! Job ID: '' @ jobId d)],
                          True)))
             else failure)"

section \<open>The server's side of the interface\<close>

text \<open>
  Modelled from the spec: the server that answers \<^verbatim>\<open>GET /api/import/logs\<close> is not among
  the sources. The spec's contract on the pagination object it returns, "\<^verbatim>\<open>totalPages ==
  ceil(totalCount / limit)\<close> and \<^verbatim>\<open>hasNextPage == (currentPage < totalPages)\<close>", for a
  limit other than 0 (the quotient is not a number otherwise).
\<close>

definition spec_pagination :: "Pagination \<Rightarrow> bool" where
  "spec_pagination p =
     (limit p \<noteq> 0
      \<and> totalPages p = \<lceil>real_of_int (totalCount p) / real_of_int (limit p)\<rceil>
      \<and> hasNextPage p = (currentPage p < totalPages p))"

text \<open>
  Modelled from the spec: the Run Orchestrator that computes \<^verbatim>\<open>successRate\<close> is not
  among the sources. The spec's formula, "\<^verbatim>\<open>round(totalImported / totalFetched * 100)\<close>
  when \<^verbatim>\<open>totalFetched > 0\<close>, else 0", over exact quotients; \<open>round\<close> takes a half up,
  as \<^verbatim>\<open>Math.round\<close> does.
\<close>

definition successRate_spec :: "int \<Rightarrow> int \<Rightarrow> int" where
  "successRate_spec imported fetched =
     (if fetched > 0 then round (real_of_int imported / real_of_int fetched * 100) else 0)"







section \<open>Inputs named in the statements\<close>

text \<open>
  A request for the logs that failed: the promise of \<^verbatim>\<open>fetch\<close> rejected, the response
  was not \<^verbatim>\<open>ok\<close>, or the body said \<^verbatim>\<open>success: false\<close>.
\<close>

definition logs_request_failed :: "logs_data fetch_result \<Rightarrow> bool" where
  "logs_request_failed r =
     (case r of
        NetworkError \<Rightarrow> True
      | HttpResponse code parsed \<Rightarrow>
          \<not> response_ok code \<or> (case parsed of None \<Rightarrow> False | Some b \<Rightarrow> \<not> success b))"

text \<open>
  A finished run as the table shows it, with the counters of the spec's end-to-end
  scenario (100 fetched, 80 new, 5 failed).
\<close>

definition example_entry :: ImportLogEntry where
  "example_entry =
     \<lparr>entry_id = ''log-1'', importId = ''job-1'', entry_source = ''jobicy'',
      sourceUrl = ''https://jobicy.com/?feed=job_feed'', entry_status = ''completed'',
      timestamp = ''2024-01-01T00:00:00.000Z'', duration = Some 3725000,
      totalFetched = 100, totalImported = 80, newJobs = 80, updatedJobs = 0, failedJobs = 5,
      successRate = 80, errorCount = 0, warningCount = 0, triggerType = ''manual'',
      triggeredBy = ''admin'', startTime = ''2024-01-01T00:00:00.000Z'',
      endTime = Some ''2024-01-01T01:02:05.000Z'', errors = [], warnings = []\<rparr>"

text \<open>
  Two pagination objects: the answer for page 2 of 25 entries at 10 a page, and the answer
  for page 2 when only 5 entries are left (the page asked for lies past the last one).
\<close>

definition second_page :: Pagination where
  "second_page =
     \<lparr>currentPage = 2, totalPages = 3, totalCount = 25,
      hasNextPage = True, hasPrevPage = True, limit = 10\<rparr>"

definition stale_page :: Pagination where
  "stale_page =
     \<lparr>currentPage = 2, totalPages = 1, totalCount = 5,
      hasNextPage = False, hasPrevPage = True, limit = 10\<rparr>"

section \<open>Auxiliary facts\<close>

lemma string_of_nat_nonempty: "string_of_nat n \<noteq> []"
  by (induction n rule: string_of_nat.induct) (subst string_of_nat.simps, simp)

lemma toString_nonempty: "toString i \<noteq> []"
  by (simp add: toString_def string_of_nat_nonempty)

lemma toString_examples:
  "toString 0 = ''0'' \<and> toString 7 = ''7'' \<and> toString 10 = ''10''
   \<and> toString 1234 = ''1234'' \<and> toString (- 5) = ''-5''"
  by (simp add: toString_def digit_char_def)

lemma not_NA_s: "xs @ ''s'' \<noteq> ''N/A''"
proof
  assume "xs @ ''s'' = ''N/A''"
  then have "last (xs @ ''s'') = last ''N/A''" by simp
  then show False by simp
qed

lemma not_NA_m: "xs @ ''m'' \<noteq> ''N/A''"
proof
  assume "xs @ ''m'' = ''N/A''"
  then have "last (xs @ ''m'') = last ''N/A''" by simp
  then show False by simp
qed

lemma js_rem_nonneg: "0 \<le> a \<Longrightarrow> js_rem a 60 = a mod 60"
  by (cases "a = 0") (simp_all add: js_rem_def)

lemma js_rem_examples: "js_rem 125 60 = 5 \<and> js_rem (- 125) 60 = - 5 \<and> js_rem 0 60 = 0"
  by (simp add: js_rem_def)

lemma formatDuration_examples:
  "formatDuration (Some 3725000) = ''1h 2m''
   \<and> formatDuration (Some 125000) = ''2m 5s''
   \<and> formatDuration (Some 42000) = ''42s''
   \<and> formatDuration (Some 999) = ''0s''
   \<and> formatDuration (Some (- 5000)) = ''-5s''"
  by (simp add: formatDuration_def toString_def digit_char_def js_rem_def)

text \<open>
  The value for a positive duration: whole hours and the minutes left over, else whole
  minutes and the seconds left over, else whole seconds.
\<close>

lemma formatDuration_positive:
  assumes "0 < d"
  shows "formatDuration (Some d) =
     (if 0 < d div 3600000
      then toString (d div 3600000) @ ''h '' @ toString (d div 60000 mod 60) @ ''m''
      else if 0 < d div 60000
      then toString (d div 60000) @ ''m '' @ toString (d div 1000 mod 60) @ ''s''
      else toString (d div 1000) @ ''s'')"
proof -
  have s: "0 \<le> d div 1000" using assms by (simp add: pos_imp_zdiv_nonneg_iff)
  have m: "0 \<le> d div 1000 div 60" using s by (simp add: pos_imp_zdiv_nonneg_iff)
  have e1: "d div 1000 div 60 = d div 60000" by (simp add: zdiv_zmult2_eq [symmetric])
  have e2: "d div 60000 div 60 = d div 3600000" by (simp add: zdiv_zmult2_eq [symmetric])
  show ?thesis
    using assms s m by (simp add: formatDuration_def Let_def js_rem_nonneg e1 e2)
qed

text \<open>Only a 2xx response whose body says \<^verbatim>\<open>success\<close> and carries \<^verbatim>\<open>data\<close> sets the table's state.\<close>

lemma fetchLogs_try_Inr:
  "fetchLogs_try st r = Inr st' \<Longrightarrow>
     \<exists>code b d. r = HttpResponse code (Some b) \<and> response_ok code \<and> success b \<and> data b = Some d
       \<and> st' = st\<lparr>logs := data_logs d, pagination := data_pagination d\<rparr>"
  by (auto simp: fetchLogs_try_def split: fetch_result.splits option.splits if_splits)

lemma fetchLogs_try_failed: "logs_request_failed r \<Longrightarrow> \<exists>m. fetchLogs_try st r = Inl m"
  by (auto simp: logs_request_failed_def fetchLogs_try_def split: fetch_result.splits option.splits)

lemma reachable_sortOrder: "reachable_filters f \<Longrightarrow> sortOrder f = ''asc'' \<or> sortOrder f = ''desc''"
proof (induction rule: reachable_filters.induct)
  case initial
  show ?case by (simp add: initial_filters_def)
next
  case (change f k v)
  from change.hyps(2) change.IH show ?case by auto
next
  case (sort f column)
  show ?case by (simp add: handleSort_def)
next
  case clear
  show ?case by (simp add: clearFilters_def)
qed

text \<open>
  The bound is a fact about the handlers the table calls, not about \<^verbatim>\<open>handleFilterChange\<close>
  as such: with the key \<^verbatim>\<open>sortOrder\<close>, which its type admits, it stores any string.
\<close>

lemma handleFilterChange_sortOrder_any:
  "sortOrder (handleFilterChange initial_filters KSortOrder ''sideways'') = ''sideways''"
  by simp

text \<open>The spec's ceiling and rounding, in integer arithmetic.\<close>

lemma spec_pagination_div:
  "spec_pagination p =
     (limit p \<noteq> 0 \<and> totalPages p = - (- totalCount p div limit p)
      \<and> hasNextPage p = (currentPage p < totalPages p))"
  by (simp only: spec_pagination_def ceiling_divide_eq_div)

lemma round_percent:
  assumes "0 < f"
  shows "round (real_of_int i / real_of_int f * 100) = (200 * i + f) div (2 * f)"
proof -
  have "real_of_int i / real_of_int f * 100 + 1 / 2 = real_of_int (200 * i + f) / real_of_int (2 * f)"
    using assms by (simp add: field_simps)
  then show ?thesis
    unfolding round_def by (simp only: floor_divide_of_int_eq)
qed

lemma successRate_spec_div:
  "successRate_spec i f = (if 0 < f then (200 * i + f) div (2 * f) else 0)"
  using round_percent [of f i] by (simp only: successRate_spec_def split: if_splits) simp


text \<open>The spec's end-to-end scenario: 80 imported of 100 fetched is a success rate of 80.\<close>

lemma successRate_spec_scenario: "successRate_spec 80 100 = 80 \<and> successRate_spec 0 0 = 0"
  by (simp add: successRate_spec_def)










text \<open>
  The sibling paths of \<^verbatim>\<open>fetchData\<close>: \<^verbatim>\<open>triggerImport\<close> shows an error for every response
  that is not \<^verbatim>\<open>ok\<close>, as \<^verbatim>\<open>fetchLogs\<close> does; like \<^verbatim>\<open>fetchData\<close> it does not read
  \<^verbatim>\<open>success\<close>.
\<close>

lemma triggerImport_not_ok:
  "\<not> response_ok code \<Longrightarrow>
     triggerImport st (HttpResponse code parsed)
     = (st\<lparr>triggering := False\<rparr>, [ToastError ''Failed to trigger import job''], False)"
  by (simp add: triggerImport_def)

lemma triggerImport_success_not_read:
  "triggerImport st
     (HttpResponse 200 (Some \<lparr>success = False, message = Some ''Queue is shut down'',
        data = Some \<lparr>jobId = ''7''\<rparr>\<rparr>))
   = (st\<lparr>triggering := False\<rparr>,
      [ToastSuccess ''Import job triggered successfully! Job ID: 7''], True)"
  by (simp add: triggerImport_def response_ok_def)

text \<open>The five statuses of the interface get their own style.\<close>

lemma getStatusBadge_documented:
  "badge_icon (getStatusBadge ''pending'') = Some ClockIcon
   \<and> badge_icon (getStatusBadge ''in-progress'') = Some ArrowUpIcon
   \<and> badge_icon (getStatusBadge ''completed'') = Some CheckCircleIcon
   \<and> badge_icon (getStatusBadge ''failed'') = Some XCircleIcon
   \<and> badge_icon (getStatusBadge ''cancelled'') = Some XCircleIcon
   \<and> getStatusBadge ''pending'' = pending_badge ''pending''"
  by (simp add: getStatusBadge_def statusConfig_get_def statusConfig_def pending_config_def
      interpolate_def pending_badge_def)

text \<open>
  A status that is neither an own key of \<^verbatim>\<open>statusConfig\<close> nor a property name of
  \<^verbatim>\<open>Object.prototype\<close> falls back to the pending style.
\<close>

lemma getStatusBadge_fallback:
  assumes "st \<notin> set (map fst statusConfig)" "st \<notin> set object_prototype_members"
  shows "getStatusBadge st = pending_badge st"
proof -
  have "map_of statusConfig st = None" using assms(1) by (simp add: map_of_eq_None_iff)
  then show ?thesis using assms(2)
    by (simp add: getStatusBadge_def statusConfig_get_def interpolate_def pending_badge_def pending_config_def)
qed

lemma getStatusBadge_fallback_example: "getStatusBadge ''archived'' = pending_badge ''archived''"
  by (simp add: getStatusBadge_def statusConfig_get_def statusConfig_def object_prototype_members_def
      interpolate_def pending_badge_def pending_config_def)

section \<open>The claims\<close>

subsection \<open>C1: failed responses on the dashboard\<close>

text \<open>
  Claim C1: for every response to \<^verbatim>\<open>/api/import/logs\<close>, \<^verbatim>\<open>/api/import/stats\<close>,
  \<^verbatim>\<open>/api/import/status\<close> or \<^verbatim>\<open>/api/import/trigger\<close>, a status outside 2xx or a body with
  \<^verbatim>\<open>success: false\<close> makes the dashboard show an error and keeps the body from being
  rendered as fresh data. \<^verbatim>\<open>fetchLogs\<close> does so (C2). \<^verbatim>\<open>fetchData\<close> does not: with both
  endpoints answering 500 it shows no toast at all, and with both answering 200 and
  \<^verbatim>\<open>success: false\<close> it stores the absent \<^verbatim>\<open>data\<close> of each body over the payloads it held,
  again without a toast.
\<close>

theorem fetchData_failure_not_surfaced:
  "fetchData (initial_dashboard_state\<lparr>importStats := Some s, importStatus := Some t, pageLoading := False\<rparr>)
     (HttpResponse 500 (Some \<lparr>success = False, message = Some ''Internal Server Error'', data = None\<rparr>))
     (HttpResponse 500 (Some \<lparr>success = False, message = Some ''Internal Server Error'', data = None\<rparr>))
   = (initial_dashboard_state\<lparr>importStats := Some s, importStatus := Some t, pageLoading := False\<rparr>, [])
   \<and> fetchData (initial_dashboard_state\<lparr>importStats := Some s, importStatus := Some t, pageLoading := False\<rparr>)
     (HttpResponse 200 (Some \<lparr>success = False, message = Some ''Database unavailable'', data = None\<rparr>))
     (HttpResponse 200 (Some \<lparr>success = False, message = Some ''Database unavailable'', data = None\<rparr>))
   = (initial_dashboard_state\<lparr>importStats := None, importStatus := None, pageLoading := False\<rparr>, [])"
  by (simp add: fetchData_def fetchData_try_def response_ok_def initial_dashboard_state_def)

subsection \<open>C2: a failed log request keeps the table\<close>

text \<open>
  Claim C2: for every failed request to \<^verbatim>\<open>/api/import/logs\<close> (network error, response
  that is not \<^verbatim>\<open>ok\<close>, or body with \<^verbatim>\<open>success: false\<close>) the logs and the pagination held by
  the table are unchanged and an error message is shown. The filters are unchanged as
  well and the loading indicator is off, so the rows shown before are shown again.
\<close>

theorem fetchLogs_failure_keeps_data:
  assumes "logs_request_failed r"
  shows "logs (fst (fetchLogs st r)) = logs st
         \<and> pagination (fst (fetchLogs st r)) = pagination st
         \<and> filters (fst (fetchLogs st r)) = filters st
         \<and> loading (fst (fetchLogs st r)) = False
         \<and> snd (fetchLogs st r) = [ToastError ''Failed to fetch import logs'']"
proof -
  obtain m where "fetchLogs_try (st\<lparr>loading := True\<rparr>) r = Inl m"
    using fetchLogs_try_failed [OF assms] by blast
  then show ?thesis by (simp add: fetchLogs_def)
qed

theorem fetchLogs_failure_keeps_data_witness:
  "logs_request_failed (HttpResponse 500 (Some \<lparr>success = False, message = Some ''boom'', data = None\<rparr>))
   \<and> logs (fst (fetchLogs (initial_table_state\<lparr>logs := [example_entry]\<rparr>)
        (HttpResponse 500 (Some \<lparr>success = False, message = Some ''boom'', data = None\<rparr>))))
       = [example_entry]
   \<and> snd (fetchLogs (initial_table_state\<lparr>logs := [example_entry]\<rparr>)
        (HttpResponse 500 (Some \<lparr>success = False, message = Some ''boom'', data = None\<rparr>)))
       = [ToastError ''Failed to fetch import logs'']"
proof -
  have h: "logs_request_failed (HttpResponse 500 (Some \<lparr>success = False, message = Some ''boom'', data = None\<rparr>))"
    by (simp add: logs_request_failed_def response_ok_def)
  show ?thesis
    using h fetchLogs_failure_keeps_data [OF h, of "initial_table_state\<lparr>logs := [example_entry]\<rparr>"]
    by simp
qed

subsection \<open>C3: the default sort parameters\<close>

text \<open>
  Claim C3: the first log query, and every query after \<^verbatim>\<open>clearFilters\<close>, sends
  \<^verbatim>\<open>sortBy=startTime\<close> and \<^verbatim>\<open>sortOrder=desc\<close>; and in every filter state the table can
  reach, the \<^verbatim>\<open>sortOrder\<close> sent is \<^verbatim>\<open>asc\<close> or \<^verbatim>\<open>desc\<close>.
\<close>

theorem sort_parameters_default:
  "map_of (fetchLogs_query initial_table_state 1) ''sortBy'' = Some ''startTime''
   \<and> map_of (fetchLogs_query initial_table_state 1) ''sortOrder'' = Some ''desc''
   \<and> map_of (fetchLogs_query (st\<lparr>filters := clearFilters\<rparr>) page) ''sortBy'' = Some ''startTime''
   \<and> map_of (fetchLogs_query (st\<lparr>filters := clearFilters\<rparr>) page) ''sortOrder'' = Some ''desc''
   \<and> (reachable_filters (filters st') \<longrightarrow>
        map_of (fetchLogs_query st' page') ''sortOrder'' = Some ''asc''
        \<or> map_of (fetchLogs_query st' page') ''sortOrder'' = Some ''desc'')"
proof -
  have so: "map_of (fetchLogs_query s p) ''sortOrder'' = Some (sortOrder (filters s))" for s p
    by (simp add: fetchLogs_query_def queryParams_def)
  have sb: "map_of (fetchLogs_query s p) ''sortBy'' = Some (sortBy (filters s))" for s p
    by (simp add: fetchLogs_query_def queryParams_def)
  show ?thesis
    using reachable_sortOrder [of "filters st'"]
    by (auto simp: so sb initial_table_state_def initial_filters_def clearFilters_def)
qed

theorem sort_parameters_default_witness:
  "reachable_filters (filters (initial_table_state\<lparr>filters := handleSort initial_filters ''startTime''\<rparr>))
   \<and> map_of (fetchLogs_query (initial_table_state\<lparr>filters := handleSort initial_filters ''startTime''\<rparr>) 1)
        ''sortOrder'' = Some ''asc''"
proof -
  have r: "reachable_filters (filters (initial_table_state\<lparr>filters := handleSort initial_filters ''startTime''\<rparr>))"
    by (simp add: reachable_filters.sort reachable_filters.initial)
  have "map_of (fetchLogs_query (initial_table_state\<lparr>filters := handleSort initial_filters ''startTime''\<rparr>) 1)
        ''sortOrder'' \<noteq> Some ''desc''"
    by (simp add: fetchLogs_query_def queryParams_def handleSort_def initial_filters_def)
  with r sort_parameters_default
    [where st' = "initial_table_state\<lparr>filters := handleSort initial_filters ''startTime''\<rparr>" and page' = 1]
  show ?thesis by blast
qed

subsection \<open>C4: the parameters of the log query\<close>

text \<open>
  Claim C4: for every filter state the query for \<^verbatim>\<open>GET /api/import/logs\<close> contains
  \<^verbatim>\<open>page\<close>, \<^verbatim>\<open>limit\<close>, \<^verbatim>\<open>sortBy\<close> and \<^verbatim>\<open>sortOrder\<close>, and contains each of \<^verbatim>\<open>source\<close>,
  \<^verbatim>\<open>status\<close>, \<^verbatim>\<open>startDate\<close> and \<^verbatim>\<open>endDate\<close> exactly when that filter is not empty. Each
  parameter carries the value of its filter, no other key is sent and none twice.
\<close>

theorem query_parameters:
  "{''page'', ''limit'', ''sortBy'', ''sortOrder''} \<subseteq> fst ` set (queryParams f p page)
   \<and> map_of (queryParams f p page) ''page'' = Some (toString page)
   \<and> map_of (queryParams f p page) ''limit'' = Some (toString (limit p))
   \<and> map_of (queryParams f p page) ''sortBy'' = Some (sortBy f)
   \<and> map_of (queryParams f p page) ''sortOrder'' = Some (sortOrder f)
   \<and> (''source'' \<in> fst ` set (queryParams f p page)) = (source f \<noteq> [])
   \<and> (''status'' \<in> fst ` set (queryParams f p page)) = (status f \<noteq> [])
   \<and> (''startDate'' \<in> fst ` set (queryParams f p page)) = (startDate f \<noteq> [])
   \<and> (''endDate'' \<in> fst ` set (queryParams f p page)) = (endDate f \<noteq> [])
   \<and> map_of (queryParams f p page) ''source'' = (if source f = [] then None else Some (source f))
   \<and> map_of (queryParams f p page) ''status'' = (if status f = [] then None else Some (status f))
   \<and> map_of (queryParams f p page) ''startDate'' = (if startDate f = [] then None else Some (startDate f))
   \<and> map_of (queryParams f p page) ''endDate'' = (if endDate f = [] then None else Some (endDate f))
   \<and> fst ` set (queryParams f p page)
        \<subseteq> {''page'', ''limit'', ''sortBy'', ''sortOrder'', ''source'', ''status'', ''startDate'', ''endDate''}
   \<and> distinct (map fst (queryParams f p page))"
  by (simp add: queryParams_def)

subsection \<open>C5: the manual trigger\<close>

text \<open>
  Claim C5: a manual trigger is a \<^verbatim>\<open>POST\<close> to \<^verbatim>\<open>/api/import/trigger\<close> whose JSON body has
  exactly the three integer fields \<^verbatim>\<open>priority\<close>, \<^verbatim>\<open>concurrency\<close> and \<^verbatim>\<open>batchSize\<close>; on a
  2xx response that carries \<^verbatim>\<open>data\<close>, the job id \<^verbatim>\<open>data.data.jobId\<close> is shown to the user
  in a success toast (and a refresh is scheduled).
\<close>

theorem triggerImport_request_and_jobId:
  "http_method triggerImport_request = ''POST''
   \<and> url triggerImport_request = ''/api/import/trigger''
   \<and> body triggerImport_request
       = Some (JObject [(''priority'', JNumber 10), (''concurrency'', JNumber 5), (''batchSize'', JNumber 100)])
   \<and> (response_ok code \<and> data b = Some d \<longrightarrow>
        triggerImport st (HttpResponse code (Some b))
        = (st\<lparr>triggering := False\<rparr>,
           [ToastSuccess (''Import job triggered successfully! Job ID: '' @ jobId d)],
           True))"
  by (simp add: triggerImport_request_def triggerImport_def)

theorem triggerImport_request_and_jobId_witness:
  "response_ok 200
   \<and> snd (triggerImport (initial_dashboard_state :: (nat, nat) dashboard_state)
        (HttpResponse 200 (Some \<lparr>success = True, message = None, data = Some \<lparr>jobId = ''42''\<rparr>\<rparr>)))
     = ([ToastSuccess ''Import job triggered successfully! Job ID: 42''], True)"
proof -
  have k: "response_ok 200" by (simp add: response_ok_def)
  show ?thesis
    using k triggerImport_request_and_jobId [of 200
        "\<lparr>success = True, message = None, data = Some \<lparr>jobId = ''42''\<rparr>\<rparr>" "\<lparr>jobId = ''42''\<rparr>"
        "initial_dashboard_state :: (nat, nat) dashboard_state"]
    by simp
qed

subsection \<open>C6: the pagination buttons\<close>

text \<open>
  Claim C6: for every paginated log query result \<^verbatim>\<open>totalPages\<close> is
  \<^verbatim>\<open>ceil(totalCount / limit)\<close> and \<^verbatim>\<open>hasNextPage\<close> is \<^verbatim>\<open>currentPage < totalPages\<close>, and
  accordingly the next-page button is enabled exactly when \<^verbatim>\<open>hasNextPage\<close> and the
  previous-page button exactly when \<^verbatim>\<open>hasPrevPage\<close>.

  As stated this fails: the buttons are only on the page when \<^verbatim>\<open>totalPages > 1\<close>. A result
  for page 2 of a single page satisfies both equations of the spec and has
  \<^verbatim>\<open>hasPrevPage\<close>, and the table shows no previous-page button.
\<close>

theorem pagination_buttons_counterexample:
  "spec_pagination stale_page \<and> hasPrevPage stale_page \<and> \<not> prevPageEnabled stale_page"
  by (simp add: spec_pagination_div stale_page_def prevPageEnabled_def paginationControls_def)

text \<open>
  Claim C6, amended: the table stores the pagination object of a successful response as
  it is. Each button is enabled exactly when \<^verbatim>\<open>totalPages > 1\<close> and its flag holds: with
  more than one page the next-page button is enabled exactly when \<^verbatim>\<open>hasNextPage\<close> and the
  previous-page button exactly when \<^verbatim>\<open>hasPrevPage\<close>, and with at most one page no button
  is rendered. For a result that satisfies the spec's two equations and has
  \<^verbatim>\<open>currentPage\<close> at least 1, the next-page button is enabled exactly when \<^verbatim>\<open>hasNextPage\<close>.
\<close>

theorem pagination_buttons:
  "nextPageEnabled p = (1 < totalPages p \<and> hasNextPage p)
   \<and> prevPageEnabled p = (1 < totalPages p \<and> hasPrevPage p)
   \<and> (1 < totalPages p \<longrightarrow> nextPageEnabled p = hasNextPage p \<and> prevPageEnabled p = hasPrevPage p)
   \<and> (totalPages p \<le> 1 \<longrightarrow> paginationControls p = None)
   \<and> (spec_pagination p \<and> 1 \<le> currentPage p \<longrightarrow> nextPageEnabled p = hasNextPage p)
   \<and> (response_ok code \<and> success b \<and> data b = Some d \<longrightarrow>
        pagination (fst (fetchLogs st (HttpResponse code (Some b)))) = data_pagination d)"
  by (auto simp: nextPageEnabled_def prevPageEnabled_def paginationControls_def spec_pagination_def
      fetchLogs_def fetchLogs_try_def)

theorem pagination_buttons_witness:
  "1 < totalPages second_page \<and> spec_pagination second_page \<and> 1 \<le> currentPage second_page
   \<and> nextPageEnabled second_page \<and> prevPageEnabled second_page
   \<and> totalPages initial_pagination \<le> 1 \<and> paginationControls initial_pagination = None
   \<and> response_ok 200
   \<and> pagination (fst (fetchLogs initial_table_state
        (HttpResponse 200 (Some \<lparr>success = True, message = None,
           data = Some \<lparr>data_logs = [], data_pagination = second_page\<rparr>\<rparr>)))) = second_page"
proof -
  have h: "1 < totalPages second_page \<and> spec_pagination second_page \<and> 1 \<le> currentPage second_page
      \<and> hasNextPage second_page \<and> hasPrevPage second_page"
    by (simp add: second_page_def spec_pagination_div)
  have i: "totalPages initial_pagination \<le> 1" by (simp add: initial_pagination_def)
  have k: "response_ok 200" by (simp add: response_ok_def)
  show ?thesis
    using h i k pagination_buttons [of second_page 200
        "\<lparr>success = True, message = None, data = Some \<lparr>data_logs = [], data_pagination = second_page\<rparr>\<rparr>"
        "\<lparr>data_logs = [], data_pagination = second_page\<rparr>" initial_table_state]
      pagination_buttons [of initial_pagination]
    by simp
qed

subsection \<open>C7: the success rate\<close>



subsection \<open>C8: formatDuration\<close>

text \<open>
  Claim C8: \<^verbatim>\<open>formatDuration\<close> returns \<^verbatim>\<open>"N/A"\<close> for \<^verbatim>\<open>null\<close> and for 0 milliseconds, and
  for every positive duration a string other than \<^verbatim>\<open>"N/A"\<close> of the form hours and
  minutes, minutes and seconds, or seconds.
\<close>

theorem formatDuration_forms:
  "formatDuration None = ''N/A''
   \<and> formatDuration (Some 0) = ''N/A''
   \<and> (0 < d \<longrightarrow>
        formatDuration (Some d) \<noteq> ''N/A''
        \<and> ((\<exists>h m. 0 < h \<and> 0 \<le> m \<and> m < 60
                \<and> formatDuration (Some d) = toString h @ ''h '' @ toString m @ ''m'')
           \<or> (\<exists>m s. 0 < m \<and> m < 60 \<and> 0 \<le> s \<and> s < 60
                \<and> formatDuration (Some d) = toString m @ ''m '' @ toString s @ ''s'')
           \<or> (\<exists>s. 0 \<le> s \<and> s < 60 \<and> formatDuration (Some d) = toString s @ ''s'')))"
proof (intro conjI impI)
  show "formatDuration None = ''N/A''" by (simp add: formatDuration_def)
  show "formatDuration (Some 0) = ''N/A''" by (simp add: formatDuration_def)
next
  assume pos: "0 < d"
  define seconds where "seconds = d div 1000"
  define minutes where "minutes = seconds div 60"
  define hours where "hours = minutes div 60"
  have s0: "0 \<le> seconds" using pos by (simp add: seconds_def pos_imp_zdiv_nonneg_iff)
  have m0: "0 \<le> minutes" using s0 by (simp add: minutes_def pos_imp_zdiv_nonneg_iff)
  have fd: "formatDuration (Some d) =
      (if hours > 0 then toString hours @ ''h '' @ toString (minutes mod 60) @ ''m''
       else if minutes > 0 then toString minutes @ ''m '' @ toString (seconds mod 60) @ ''s''
       else toString seconds @ ''s'')"
    using pos s0 m0
    by (simp add: formatDuration_def Let_def js_rem_nonneg seconds_def minutes_def hours_def)
  show "formatDuration (Some d) \<noteq> ''N/A''"
    using not_NA_s [of "toString seconds"]
      not_NA_s [of "toString minutes @ ''m '' @ toString (seconds mod 60)"]
      not_NA_m [of "toString hours @ ''h '' @ toString (minutes mod 60)"]
    by (simp add: fd)
  show "(\<exists>h m. 0 < h \<and> 0 \<le> m \<and> m < 60
                \<and> formatDuration (Some d) = toString h @ ''h '' @ toString m @ ''m'')
           \<or> (\<exists>m s. 0 < m \<and> m < 60 \<and> 0 \<le> s \<and> s < 60
                \<and> formatDuration (Some d) = toString m @ ''m '' @ toString s @ ''s'')
           \<or> (\<exists>s. 0 \<le> s \<and> s < 60 \<and> formatDuration (Some d) = toString s @ ''s'')"
  proof (cases "hours > 0")
    case True
    then have "0 < hours \<and> 0 \<le> minutes mod 60 \<and> minutes mod 60 < 60
       \<and> formatDuration (Some d) = toString hours @ ''h '' @ toString (minutes mod 60) @ ''m''"
      by (simp add: fd)
    then show ?thesis by blast
  next
    case h: False
    then have mlt: "minutes < 60" using m0 by (simp add: hours_def pos_imp_zdiv_pos_iff)
    show ?thesis
    proof (cases "minutes > 0")
      case True
      then have "0 < minutes \<and> minutes < 60 \<and> 0 \<le> seconds mod 60 \<and> seconds mod 60 < 60
        \<and> formatDuration (Some d) = toString minutes @ ''m '' @ toString (seconds mod 60) @ ''s''"
        using h mlt by (simp add: fd)
      then show ?thesis by blast
    next
      case False
      then have "\<not> 0 < seconds div 60" by (simp add: minutes_def)
      then have "seconds < 60" by (simp add: pos_imp_zdiv_pos_iff)
      then have "0 \<le> seconds \<and> seconds < 60 \<and> formatDuration (Some d) = toString seconds @ ''s''"
        using h False s0 by (simp add: fd)
      then show ?thesis by blast
    qed
  qed
qed

theorem formatDuration_forms_witness:
  "(0::int) < 3725000 \<and> formatDuration (Some 3725000) \<noteq> ''N/A''
   \<and> formatDuration (Some 3725000) = toString 1 @ ''h '' @ toString 2 @ ''m''"
proof -
  have "formatDuration (Some 3725000) = toString 1 @ ''h '' @ toString 2 @ ''m''"
    by (simp add: formatDuration_def js_rem_def)
  then show ?thesis using formatDuration_forms [of 3725000] by simp
qed

subsection \<open>C9: getStatusBadge on arbitrary strings\<close>

text \<open>
  Claim C9: \<^verbatim>\<open>getStatusBadge\<close> is total over arbitrary status strings and falls back to
  the pending style for every status outside the five of the interface. It does for a
  string that names no property of \<^verbatim>\<open>Object.prototype\<close> (\<open>getStatusBadge_fallback\<close>).
  For the status \<^verbatim>\<open>constructor\<close> the read \<^verbatim>\<open>statusConfig[status]\<close> finds the inherited
  member, which is truthy, so the fallback after \<^verbatim>\<open>||\<close> is not taken: the badge has the
  classes \<^verbatim>\<open>undefined undefined\<close> and no icon component, and is not the pending badge.
\<close>

theorem getStatusBadge_inherited_member:
  "getStatusBadge ''constructor''
   = \<lparr>className = ''inline-flex items-center px-2.5 py-0.5 rounded-full text-xs font-medium undefined undefined'',
      badge_icon = None, badge_label = ''constructor''\<rparr>
   \<and> getStatusBadge ''constructor'' \<noteq> pending_badge ''constructor''"
  by (simp add: getStatusBadge_def statusConfig_get_def statusConfig_def object_prototype_members_def
      interpolate_def pending_badge_def)

subsection \<open>C10: handleSort\<close>

text \<open>
  Claim C10: \<^verbatim>\<open>handleSort\<close> sets \<^verbatim>\<open>sortOrder\<close> to \<^verbatim>\<open>asc\<close> exactly when the column is the
  current \<^verbatim>\<open>sortBy\<close> and the current order is \<^verbatim>\<open>desc\<close>, and to \<^verbatim>\<open>desc\<close> otherwise; hence
  a new column starts descending, and two calls on the same column return \<^verbatim>\<open>sortOrder\<close>
  to its starting value.

  The last part fails as stated: from the initial filters (sorted by \<^verbatim>\<open>startTime\<close>,
  descending) two clicks on the column \<^verbatim>\<open>source\<close> end ascending.
\<close>

theorem handleSort_twice_counterexample:
  "sortOrder (handleSort (handleSort initial_filters ''source'') ''source'') \<noteq> sortOrder initial_filters"
  by (simp add: handleSort_def initial_filters_def)

text \<open>
  Claim C10, amended: the first two parts as stated. After two calls on the same column
  the order is \<^verbatim>\<open>desc\<close> if that column was the current \<^verbatim>\<open>sortBy\<close> with order \<^verbatim>\<open>desc\<close>, and
  \<^verbatim>\<open>asc\<close> otherwise; so, starting from \<^verbatim>\<open>asc\<close> or \<^verbatim>\<open>desc\<close>, two calls return \<^verbatim>\<open>sortOrder\<close>
  to its starting value exactly when the column was already the current \<^verbatim>\<open>sortBy\<close> or
  the starting order was \<^verbatim>\<open>asc\<close>.
\<close>

theorem handleSort_order:
  "(sortOrder (handleSort f column) = ''asc'') = (sortBy f = column \<and> sortOrder f = ''desc'')
   \<and> (sortOrder (handleSort f column) = ''desc'') = (\<not> (sortBy f = column \<and> sortOrder f = ''desc''))
   \<and> sortBy (handleSort f column) = column
   \<and> (sortBy f \<noteq> column \<longrightarrow> sortOrder (handleSort f column) = ''desc'')
   \<and> sortOrder (handleSort (handleSort f column) column)
       = (if sortBy f = column \<and> sortOrder f = ''desc'' then ''desc'' else ''asc'')
   \<and> (sortOrder f = ''asc'' \<or> sortOrder f = ''desc'' \<longrightarrow>
        (sortOrder (handleSort (handleSort f column) column) = sortOrder f)
        = (sortBy f = column \<or> sortOrder f = ''asc''))"
  by (auto simp: handleSort_def)

theorem handleSort_order_witness:
  "sortBy initial_filters \<noteq> ''source''
   \<and> sortOrder (handleSort initial_filters ''source'') = ''desc''
   \<and> (sortOrder initial_filters = ''asc'' \<or> sortOrder initial_filters = ''desc'')
   \<and> sortOrder (handleSort (handleSort initial_filters ''startTime'') ''startTime'') = sortOrder initial_filters"
  using handleSort_order [of initial_filters "''source''"] handleSort_order [of initial_filters "''startTime''"]
  by (simp add: initial_filters_def)

end
